theory Spec2Isabelle
  imports Main "HOL-Library.AList"
begin

section \<open>Python values, exceptions and the state of a run\<close>

text \<open>
  The exceptions that the script can raise.  \<open>exit()\<close> and \<open>sys.exit()\<close> raise
  \<open>SystemExit\<close>; nothing in the script catches it, so it ends the process.  Every error of
  \<open>ftplib\<close> and of the socket layer is \<open>FTPError\<close>, every error of \<open>zipfile\<close> and
  \<open>tarfile\<close> while an archive is read is \<open>ArchiveError\<close>.
\<close>

datatype exn =
  SystemExit | KeyError | TypeError | AttributeError | UnboundLocalError
  | OSError | FTPError | ArchiveError

text \<open>
  What \<open>yaml.safe_load\<close> can return: null, booleans, integers, strings, sequences and
  mappings.  A mapping is a Python \<open>dict\<close>, kept as an association list in insertion order
  (the order in which the dict is iterated).  Float scalars and keys that are not strings are
  left out of the model.
\<close>

datatype yaml =
  YNull | YBool bool | YInt int | YStr string
  | YSeq "yaml list" | YMap "(string \<times> yaml) list"

text \<open>Python's truth value of an object, as \<open>and\<close> and \<open>not\<close> test it.\<close>

fun truthy :: "yaml \<Rightarrow> bool" where
  "truthy YNull = False"
| "truthy (YBool b) = b"
| "truthy (YInt i) = (i \<noteq> 0)"
| "truthy (YStr s) = (s \<noteq> [])"
| "truthy (YSeq xs) = (xs \<noteq> [])"
| "truthy (YMap kvs) = (kvs \<noteq> [])"

datatype parse_result = YAMLError string | Parsed yaml

datatype severity = Normal | Warning | Error | CodeBreaker

text \<open>
  A message is kept as its format template together with the arguments of \<open>format\<close>, so
  that no rendering of Python values to text has to be modelled.
\<close>

type_synonym message = "string \<times> yaml list"

text \<open>
  The outcome, fixed by the environment, of the attempt to download one entry of the bare
  listing: the local file cannot be opened; \<open>RETR\<close> raises after the given bytes were
  written; the transfer succeeds with the given bytes; or the transfer succeeds and closing
  the local file raises.
\<close>

datatype fetch = OpenFailed | RetrFailed string | Fetched string | CloseFailed string

datatype event =
  Log severity message
  | Raw message
  | Connect yaml
  | Login yaml yaml
  | Cwd yaml
  | ListCmd
  | Nlst
  | Retr string
  | Quit

record ftp_server =
  accepts_connect :: bool
  accepts_login :: "yaml \<Rightarrow> yaml \<Rightarrow> bool"
  getwelcome :: string
  has_dir :: "yaml \<Rightarrow> bool"
  list_lines :: "string list option"
  nlst_lines :: "(string \<times> fetch) list option"
  quit_ok :: bool

text \<open>
  Everything the script reads from outside: the platform and the directories the operating
  system reports, the YAML parser, the FTP servers by host name, and the archive libraries
  (which look at the content of a file only).
\<close>

record env =
  platform :: string
  cwd :: string
  home :: string
  userprofile :: string
  localappdata :: string
  safe_load :: "string \<Rightarrow> parse_result"
  server :: "yaml \<Rightarrow> ftp_server"
  is_zipfile :: "string \<Rightarrow> bool"
  zip_members :: "string \<Rightarrow> (string \<times> string) list option"
  is_tarfile :: "string \<Rightarrow> bool"
  tar_members :: "string \<Rightarrow> (string \<times> string) list option"

text \<open>
  What a run changes: the session log and the network commands, in order (\<open>trace\<close>); the
  terminal; the logger's \<open>verbose\<close> attribute; the regular files of the local file system
  with their content; its directories; and the files opened for writing and never closed.
\<close>

record world =
  trace :: "event list"
  console :: "message list"
  logger_verbose :: bool
  files :: "(string \<times> string) list"
  dirs :: "string list"
  unclosed :: "string list"

type_synonym 'a prog = "world \<Rightarrow> (exn + 'a) \<times> world"

definition ret :: "'a \<Rightarrow> 'a prog" where
  "ret a w = (Inr a, w)"

definition raise :: "exn \<Rightarrow> 'a prog" where
  "raise e w = (Inl e, w)"

definition andThen :: "'a prog \<Rightarrow> ('a \<Rightarrow> 'b prog) \<Rightarrow> 'b prog" where
  "andThen m f w = (case m w of (Inl e, w') \<Rightarrow> (Inl e, w') | (Inr a, w') \<Rightarrow> f a w')"

definition emit :: "event \<Rightarrow> unit prog" where
  "emit e w = (Inr (), trace_update (\<lambda>t. t @ [e]) w)"

text \<open>A \<open>for\<close> loop whose body threads one local variable.\<close>

fun forEach :: "'x list \<Rightarrow> ('x \<Rightarrow> 'a \<Rightarrow> 'a prog) \<Rightarrow> 'a \<Rightarrow> 'a prog" where
  "forEach [] body a = ret a"
| "forEach (x # xs) body a = andThen (body x a) (forEach xs body)"

section \<open>The logger\<close>

datatype payload = PStr string | PExc string

record logdata =
  code :: int
  error :: "payload option"
  response :: "payload option"

text \<open>\<open>'...' + x + '...'\<close>: concatenation with something that is not a \<open>str\<close> raises.\<close>

definition details :: "message \<Rightarrow> payload option \<Rightarrow> message prog" where
  "details toWrite p =
     (case p of
        None \<Rightarrow> raise KeyError
      | Some (PExc x) \<Rightarrow> raise TypeError
      | Some (PStr s) \<Rightarrow>
          ret (fst toWrite @ ''\<newline>[ErrorDetailsStart]\<newline>{}\<newline>[ErrorDetailsEnd]'',
               snd toWrite @ [YStr s]))"

text \<open>
  \<open>Logger.writeLog\<close>.  The line written to the log file is the indicator of the severity,
  the line number, a time stamp and the message; the model keeps the severity and the
  message.  With \<open>verbose\<close> the message goes to the terminal as well.
\<close>

definition writeLog :: "message \<Rightarrow> severity \<Rightarrow> logdata option \<Rightarrow> unit prog" where
  "writeLog msg sev data =
     andThen
       (case sev of
          CodeBreaker \<Rightarrow>
            (case data of
               None \<Rightarrow> raise TypeError
             | Some d \<Rightarrow>
                 if code d = 2 then details msg (response d)
                 else if code d = 3 then details msg (error d)
                 else ret msg)
        | _ \<Rightarrow> ret msg)
       (\<lambda>toWrite w.
          (Inr (),
           console_update (\<lambda>c. if logger_verbose w then c @ [msg] else c)
             (trace_update (\<lambda>t. t @ [Log sev toWrite]) w)))"

text \<open>\<open>Logger.write\<close>, which \<open>print\<close> reaches through \<open>sys.stdout = LOGGER\<close>.\<close>

definition print :: "message \<Rightarrow> unit prog" where
  "print msg w =
     (Inr (),
      console_update (\<lambda>c. if logger_verbose w then c @ [msg] else c)
        (trace_update (\<lambda>t. t @ [Raw msg]) w))"

section \<open>loadCredentials\<close>

text \<open>\<open>d[k]\<close> on a parsed value.\<close>

definition subscript :: "yaml \<Rightarrow> string \<Rightarrow> yaml prog" where
  "subscript d k =
     (case d of
        YMap kvs \<Rightarrow> (case map_of kvs k of None \<Rightarrow> raise KeyError | Some v \<Rightarrow> ret v)
      | _ \<Rightarrow> raise TypeError)"

text \<open>\<open>del d[k]\<close>.\<close>

definition del_key :: "string \<Rightarrow> (string \<times> yaml) list \<Rightarrow> (string \<times> yaml) list prog" where
  "del_key k d = (if k \<in> fst ` set d then ret (AList.delete k d) else raise KeyError)"

text \<open>
  \<open>site[k1] and site[k2] and ...\<close>: the operands are evaluated from the left and the
  evaluation stops at the first one that is false.
\<close>

fun and_chain :: "yaml \<Rightarrow> string list \<Rightarrow> bool prog" where
  "and_chain site [] = ret True"
| "and_chain site (k # ks) =
     andThen (subscript site k) (\<lambda>v. if truthy v then and_chain site ks else ret False)"

definition required_keys :: "string list" where
  "required_keys = [''site'', ''user'', ''password'', ''remote_path'']"

text \<open>The body of the loop of \<open>loadCredentials\<close>, for the key \<open>config\<close>.\<close>

definition checkConfig ::
  "string \<Rightarrow> (string \<times> yaml) list \<Rightarrow> (string \<times> yaml) list prog" where
  "checkConfig config ftpConfigs =
     andThen (subscript (YMap ftpConfigs) config) (\<lambda>site.
     andThen
       (case site of
          YMap kvs \<Rightarrow>
            if \<not> list_all (\<lambda>item. item \<in> fst ` set kvs) required_keys
            then andThen
                   (writeLog (''Key missing from {} site info. Removing faulty config...'',
                              [YStr config]) Warning None)
                   (\<lambda>_. del_key config ftpConfigs)
            else ret ftpConfigs
        | _ \<Rightarrow> raise AttributeError)
       (\<lambda>ftpConfigs1.
     andThen (and_chain site required_keys) (\<lambda>present.
       if \<not> present
       then andThen
              (writeLog
                 (''A value in in {} site info is None (Not present). Removing faulty config...'',
                  [YStr config]) Warning None)
              (\<lambda>_. del_key config ftpConfigs1)
       else ret ftpConfigs1)))"

definition read_file :: "string \<Rightarrow> string prog" where
  "read_file path w =
     (case map_of (files w) path of None \<Rightarrow> (Inl OSError, w) | Some c \<Rightarrow> (Inr c, w))"

definition loadCredentials :: "env \<Rightarrow> string \<Rightarrow> (string \<times> yaml) list prog" where
  "loadCredentials E ftpPath =
     andThen (read_file ftpPath) (\<lambda>stream.
       case safe_load E stream of
         YAMLError exc \<Rightarrow>
           andThen
             (writeLog (''Error while loading YAML.'', []) CodeBreaker
                (Some \<lparr>code = 3, error = Some (PExc exc), response = None\<rparr>))
             (\<lambda>_. raise UnboundLocalError)
       | Parsed (YMap ftpConfigs) \<Rightarrow> forEach (map fst ftpConfigs) checkConfig ftpConfigs
       | Parsed _ \<Rightarrow> raise AttributeError)"

section \<open>Paths and the local file system\<close>

definition startswith :: "string \<Rightarrow> string \<Rightarrow> bool" where
  "startswith s p = (take (length p) s = p)"

definition endswith :: "string \<Rightarrow> string \<Rightarrow> bool" where
  "endswith s p = (length p \<le> length s \<and> drop (length s - length p) s = p)"

text \<open>
  \<open>re.compile(pattern).search(path)\<close> for a pattern without metacharacters (the only
  pattern the script uses is \<open>SureDone_\<close>): the pattern occurs somewhere in the path.
\<close>

fun search :: "string \<Rightarrow> string \<Rightarrow> bool" where
  "search pattern [] = (pattern = [])"
| "search pattern (c # cs) = (startswith (c # cs) pattern \<or> search pattern cs)"

text \<open>\<open>os.path.join\<close> of two components, as \<open>posixpath\<close> defines it.\<close>

definition os_path_join :: "string \<Rightarrow> string \<Rightarrow> string" where
  "os_path_join a b =
     (if startswith b ''/'' then b
      else if a = [] \<or> endswith a ''/'' then a @ b
      else a @ ''/'' @ b)"

text \<open>
  The download directory is \<open>None\<close> when \<open>getDefaultDownloadPath\<close> falls off its end;
  joining \<open>None\<close> with a name raises.
\<close>

definition join_path :: "string option \<Rightarrow> string \<Rightarrow> string prog" where
  "join_path d name = (case d of None \<Rightarrow> raise TypeError | Some a \<Rightarrow> ret (os_path_join a name))"

definition gets :: "(world \<Rightarrow> 'a) \<Rightarrow> 'a prog" where
  "gets f w = (Inr (f w), w)"

definition path_exists :: "string \<Rightarrow> world \<Rightarrow> bool" where
  "path_exists p w = (p \<in> fst ` set (files w) \<or> p \<in> set (dirs w))"

definition path_isdir :: "string \<Rightarrow> world \<Rightarrow> bool" where
  "path_isdir p w = (p \<in> set (dirs w))"

text \<open>\<open>open(path, "wb")\<close>: the file is created or truncated, and its handle is open.\<close>

definition open_wb :: "string \<Rightarrow> unit prog" where
  "open_wb path w =
     (Inr (), unclosed_update (\<lambda>u. u @ [path]) (files_update (AList.update path []) w))"

definition write_file :: "string \<Rightarrow> string \<Rightarrow> unit prog" where
  "write_file path content w = (Inr (), files_update (AList.update path content) w)"

definition close_file :: "string \<Rightarrow> unit prog" where
  "close_file path w = (Inr (), unclosed_update (remove1 path) w)"

definition os_remove :: "string \<Rightarrow> unit prog" where
  "os_remove path w =
     (if path \<in> fst ` set (files w) then (Inr (), files_update (AList.delete path) w)
      else (Inl OSError, w))"

text \<open>
  The paths \<open>os.path.join(root, name)\<close> that the walk of \<open>purge\<close> computes: the regular
  files below \<open>dir\<close>.
\<close>

definition below :: "string \<Rightarrow> string \<Rightarrow> bool" where
  "below dir p =
     (let d = (if endswith dir ''/'' then dir else dir @ ''/'')
      in startswith p d \<and> p \<noteq> d)"

definition os_walk :: "string \<Rightarrow> world \<Rightarrow> string list" where
  "os_walk dir w = filter (below dir) (map fst (files w))"

section \<open>Argument parsing\<close>

definition purge :: "string \<Rightarrow> string \<Rightarrow> nat prog" where
  "purge dir pattern =
     andThen (gets (os_walk dir)) (\<lambda>paths.
       forEach paths
         (\<lambda>path count.
            if search pattern path = True
            then (if \<not> endswith path ''.py''
                  then andThen (os_remove path) (\<lambda>_. ret (count + 1))
                  else ret count)
            else ret count)
         0)"

definition windows :: "env \<Rightarrow> bool" where
  "windows E = (platform E = ''win32'' \<or> platform E = ''win64'')"

definition linux :: "env \<Rightarrow> bool" where
  "linux E = (platform E = ''linux'' \<or> platform E = ''linux2'')"

definition purgeDefault :: "bool \<Rightarrow> string \<Rightarrow> unit prog" where
  "purgeDefault preserve downloadPath =
     (if \<not> preserve
      then andThen (purge downloadPath ''SureDone_'')
             (\<lambda>_. writeLog (''Purged existing files.'', []) Normal None)
      else ret ())"

definition getDefaultDownloadPath :: "env \<Rightarrow> bool \<Rightarrow> string option prog" where
  "getDefaultDownloadPath E preserve =
     (if windows E then
        (let downloadPath = os_path_join (userprofile E) ''Downloads''
         in andThen (purgeDefault preserve downloadPath) (\<lambda>_. ret (Some downloadPath)))
      else if linux E then
        (let downloadPath = home E
         in andThen (purgeDefault preserve downloadPath) (\<lambda>_. ret (Some downloadPath)))
      else ret None)"

definition validateDownloadPath :: "string \<Rightarrow> bool prog" where
  "validateDownloadPath path =
     andThen (gets (path_exists path)) (\<lambda>ex.
       if \<not> ex then
         andThen
           (writeLog
              (''The download path does not exist. Switching to default download location.'', [])
              Warning None)
           (\<lambda>_. ret False)
       else
         andThen (gets (path_isdir path)) (\<lambda>isdir.
           if \<not> isdir then
             andThen
               (writeLog
                  (''The download path must be a directory, not a file. Switching to default download location.'',
                   []) Warning None)
               (\<lambda>_. ret False)
           else ret True))"

definition validateConfigPath :: "string \<Rightarrow> bool prog" where
  "validateConfigPath configPath =
     (if \<not> endswith configPath ''yaml'' then
        andThen
          (writeLog
             (''Configuration file must be .yaml extension. Looking for configuration file in default locations.'',
              []) Error None)
          (\<lambda>_. ret False)
      else
        andThen (gets (path_exists configPath)) (\<lambda>ex.
          if \<not> ex then
            andThen
              (writeLog
                 (''Specified path to the configuration file is invalid. Looking for configuration file in default locations.'',
                  []) Error None)
              (\<lambda>_. ret False)
          else ret True))"

definition generic :: "logdata option" where
  "generic = Some \<lparr>code = 1, error = None, response = None\<rparr>"

definition notFound :: "string prog" where
  "notFound =
     andThen
       (writeLog
          (''ftp.yaml config file wasn't found in default locations! Specify a path to FTP credentials YAML file using (-f --file) argument.'',
           []) CodeBreaker generic)
       (\<lambda>_. raise SystemExit)"

definition getDefaultConfigPath :: "env \<Rightarrow> string prog" where
  "getDefaultConfigPath E =
     (let configPath = os_path_join (cwd E) ''ftp.yaml'' in
      andThen (gets (path_exists configPath)) (\<lambda>ex.
        if ex then ret configPath
        else if windows E then
          (let configPath = os_path_join (localappdata E) ''ftp.yaml'' in
           andThen (gets (path_exists configPath)) (\<lambda>ex. if ex then ret configPath else notFound))
        else if linux E then
          (let configPath = os_path_join (home E) ''ftp.yaml'' in
           andThen (gets (path_exists configPath)) (\<lambda>ex. if ex then ret configPath else notFound))
        else
          andThen
            (writeLog
               (''Platform couldn't be recognized. Are you sure you are running this script on Windows or Ubuntu Linux?'',
                []) CodeBreaker generic)
            (\<lambda>_. raise SystemExit)))"

datatype getopt = GetoptError | Opts "(string \<times> string) list"

definition HELP_MESSAGE :: message where
  "HELP_MESSAGE = (''Usage: $ python3 automatedFTPDownloader.py [options]'', [])"

definition set_verbose :: "bool \<Rightarrow> unit prog" where
  "set_verbose b w = (Inr (), w\<lparr>logger_verbose := b\<rparr>)"

text \<open>The local variables of \<open>parseArgs\<close> that the loop over the options assigns.\<close>

record locals =
  ftpYAMLPath :: string
  customYAMLPathFoundAndValidated :: bool
  outputDIRPath :: string
  customOutputPathFoundAndValidated :: bool
  verbose :: bool
  preserveOldFiles :: bool
  unzipFiles :: bool
  targetSiteSpecified :: bool
  targetSite :: string

definition defaults :: locals where
  "defaults =
     \<lparr>ftpYAMLPath = ''ftp.yaml'', customYAMLPathFoundAndValidated = False,
      outputDIRPath = [], customOutputPathFoundAndValidated = False,
      verbose = False, preserveOldFiles = False, unzipFiles = False,
      targetSiteSpecified = False, targetSite = ''.*_.*''\<rparr>"

text \<open>The body of the loop over the options that \<open>getopt\<close> returns.\<close>

definition handleOption :: "string \<times> string \<Rightarrow> locals \<Rightarrow> locals prog" where
  "handleOption ov a =
     (case ov of (option, val) \<Rightarrow>
        if option = ''-h'' then
          andThen (set_verbose True) (\<lambda>_.
          andThen (print HELP_MESSAGE) (\<lambda>_. raise SystemExit))
        else if option = ''-f'' \<or> option = ''--file'' then
          andThen (validateConfigPath val) (\<lambda>ok.
            ret (a\<lparr>ftpYAMLPath := val, customYAMLPathFoundAndValidated := ok\<rparr>))
        else if option = ''-o'' \<or> option = ''--output'' then
          andThen (validateDownloadPath val) (\<lambda>ok.
            ret (a\<lparr>outputDIRPath := val, customOutputPathFoundAndValidated := ok\<rparr>))
        else if option = ''-p'' \<or> option = ''--preserve'' then
          ret (a\<lparr>preserveOldFiles := True\<rparr>)
        else if option = ''-v'' \<or> option = ''--verbose'' then
          andThen (set_verbose True) (\<lambda>_. ret (a\<lparr>verbose := True\<rparr>))
        else if option = ''-u'' \<or> option = ''--unzip'' then
          ret (a\<lparr>unzipFiles := True\<rparr>)
        else if option = ''-s'' \<or> option = ''--site'' then
          ret (a\<lparr>targetSite := val, targetSiteSpecified := True\<rparr>)
        else ret a)"

definition parseOptions :: "getopt \<Rightarrow> locals prog" where
  "parseOptions g =
     (case g of
        GetoptError \<Rightarrow>
          andThen (set_verbose True) (\<lambda>_.
          andThen (print (''Error in arguments!'', [])) (\<lambda>_.
          andThen (print HELP_MESSAGE) (\<lambda>_. raise SystemExit)))
      | Opts opts \<Rightarrow> forEach opts handleOption defaults)"

text \<open>The validation of the target site at the end of \<open>parseArgs\<close>.\<close>

definition checkTargetSite :: "locals \<Rightarrow> (string \<times> yaml) list \<Rightarrow> string prog" where
  "checkTargetSite a ftpConfigs =
     (if targetSiteSpecified a then
        (if \<not> targetSite a \<in> fst ` set ftpConfigs then
           andThen
             (writeLog
                (''Credentials of the target ftp site ({}) were not present in the config.'',
                 [YStr (targetSite a)]) CodeBreaker generic) (\<lambda>_.
           andThen
             (writeLog
                (''Check the log to make sure that it wasn't removed due to incomplete infromation.'',
                 []) CodeBreaker generic) (\<lambda>_.
           andThen (writeLog (''Exiting...'', []) CodeBreaker generic) (\<lambda>_.
           raise SystemExit)))
         else ret (targetSite a))
      else ret ''.*_.*'')"

definition configPathOf :: "env \<Rightarrow> locals \<Rightarrow> string prog" where
  "configPathOf E a =
     (if \<not> customYAMLPathFoundAndValidated a then getDefaultConfigPath E
      else ret (ftpYAMLPath a))"

definition outputPathOf :: "env \<Rightarrow> locals \<Rightarrow> string option prog" where
  "outputPathOf E a =
     (if \<not> customOutputPathFoundAndValidated a
      then getDefaultDownloadPath E (preserveOldFiles a)
      else ret (Some (outputDIRPath a)))"

type_synonym args =
  "string \<times> string option \<times> bool \<times> bool \<times> bool \<times> (string \<times> yaml) list \<times> string"

definition parseArgs :: "env \<Rightarrow> getopt \<Rightarrow> args prog" where
  "parseArgs E argv =
     andThen (parseOptions argv) (\<lambda>a.
     andThen (configPathOf E a) (\<lambda>yamlPath.
     andThen (outputPathOf E a) (\<lambda>outPath.
     andThen (loadCredentials E yamlPath) (\<lambda>ftpConfigs.
     andThen (checkTargetSite a ftpConfigs) (\<lambda>site.
     ret (yamlPath, outPath, preserveOldFiles a, verbose a, unzipFiles a, ftpConfigs, site))))))"

section \<open>The transfer session\<close>

definition disconnectFtp :: "ftp_server \<Rightarrow> yaml \<Rightarrow> unit prog" where
  "disconnectFtp ftp hostname =
     andThen (writeLog (''Disconnecting from {}...'', [hostname]) Normal None) (\<lambda>_.
     andThen (emit Quit) (\<lambda>_.
     andThen (if quit_ok ftp then ret () else raise FTPError) (\<lambda>_.
     writeLog (''Disconnected from {}.'', [hostname]) Normal None)))"

text \<open>The handler of the \<open>try\<close> in the download loop.\<close>

definition skipping :: "string \<Rightarrow> string list \<Rightarrow> string list prog" where
  "skipping filename filesDownloaded =
     andThen
       (writeLog (''{} was actually a directory, skipping...'', [YStr filename]) Normal None)
       (\<lambda>_. ret filesDownloaded)"

text \<open>
  The body of the download loop for one entry of the bare listing.  The name joins the list
  after \<open>retrbinary\<close> has returned and before the file is closed.
\<close>

definition downloadOne ::
  "string option \<Rightarrow> string \<times> fetch \<Rightarrow> string list \<Rightarrow> string list prog" where
  "downloadOne localDownloadPath entry filesDownloaded =
     (case entry of (filename, outcome) \<Rightarrow>
        if filename \<noteq> ''.'' \<and> filename \<noteq> ''..'' then
          andThen (writeLog (''Downloading {}...'', [YStr filename]) Normal None) (\<lambda>_.
            case localDownloadPath of
              None \<Rightarrow> skipping filename filesDownloaded
            | Some d \<Rightarrow>
                (let file = os_path_join d filename in
                 case outcome of
                   OpenFailed \<Rightarrow> skipping filename filesDownloaded
                 | RetrFailed written \<Rightarrow>
                     andThen (open_wb file) (\<lambda>_.
                     andThen (emit (Retr filename)) (\<lambda>_.
                     andThen (write_file file written) (\<lambda>_.
                     skipping filename filesDownloaded)))
                 | Fetched content \<Rightarrow>
                     andThen (open_wb file) (\<lambda>_.
                     andThen (emit (Retr filename)) (\<lambda>_.
                     andThen (write_file file content) (\<lambda>_.
                     andThen (close_file file) (\<lambda>_.
                     ret (filesDownloaded @ [filename])))))
                 | CloseFailed content \<Rightarrow>
                     andThen (open_wb file) (\<lambda>_.
                     andThen (emit (Retr filename)) (\<lambda>_.
                     andThen (write_file file content) (\<lambda>_.
                     skipping filename (filesDownloaded @ [filename]))))))
        else ret filesDownloaded)"

definition logLines :: "string list \<Rightarrow> unit prog" where
  "logLines ls = forEach ls (\<lambda>i _. writeLog (i, []) Normal None) ()"

definition downloadFiles ::
  "ftp_server \<Rightarrow> yaml \<Rightarrow> yaml \<Rightarrow> string option \<Rightarrow> string list prog" where
  "downloadFiles ftp hostname sourceDirectory localDownloadPath =
     andThen (emit (Cwd sourceDirectory)) (\<lambda>_.
     andThen (if has_dir ftp sourceDirectory then ret () else raise FTPError) (\<lambda>_.
     andThen
       (writeLog (''This script will only download files, not directories.'', []) Normal None)
       (\<lambda>_.
     andThen (writeLog (''Files at {}:'', [sourceDirectory]) Normal None) (\<lambda>_.
     andThen (emit ListCmd) (\<lambda>_.
     andThen (case list_lines ftp of None \<Rightarrow> raise FTPError | Some ls \<Rightarrow> logLines ls) (\<lambda>_.
     andThen (emit Nlst) (\<lambda>_.
     andThen (case nlst_lines ftp of None \<Rightarrow> raise FTPError | Some fileList \<Rightarrow> ret fileList)
       (\<lambda>fileList.
     andThen (forEach fileList (downloadOne localDownloadPath) []) (\<lambda>filesDownloaded.
     andThen
       (writeLog (''{} files successfully downloaded'', [YInt (int (length filesDownloaded))])
          Normal None) (\<lambda>_.
     andThen (disconnectFtp ftp hostname) (\<lambda>_.
     ret filesDownloaded)))))))))))"

text \<open>The loop that cuts the welcome message into its lines.\<close>

fun welcomeLines :: "string \<Rightarrow> string \<Rightarrow> string list" where
  "welcomeLines oneline [] = [oneline]"
| "welcomeLines oneline (c # cs) =
     (if c = CHR 0x0A then oneline # welcomeLines [] cs else welcomeLines (oneline @ [c]) cs)"

definition connectToFTP :: "env \<Rightarrow> yaml \<Rightarrow> string \<Rightarrow> string option \<Rightarrow> string list prog" where
  "connectToFTP E siteConfig siteName downloadPath =
     andThen (subscript siteConfig ''site'') (\<lambda>hostname.
     andThen (subscript siteConfig ''user'') (\<lambda>username.
     andThen (subscript siteConfig ''password'') (\<lambda>password.
     andThen (subscript siteConfig ''remote_path'') (\<lambda>sourceDirectory.
     andThen
       (writeLog (''Connecting to {} at host {}...'', [YStr siteName, hostname]) Normal None)
       (\<lambda>_.
     andThen (emit (Connect hostname)) (\<lambda>_.
     andThen (if accepts_connect (server E hostname) then ret () else raise FTPError) (\<lambda>_.
     andThen (emit (Login username password)) (\<lambda>_.
     andThen
       (if accepts_login (server E hostname) username password then ret () else raise FTPError)
       (\<lambda>_.
     andThen (writeLog (''Welcome: '', []) Normal None) (\<lambda>_.
     andThen (logLines (welcomeLines [] (getwelcome (server E hostname)))) (\<lambda>_.
     andThen (writeLog (''Connected Successfully!'', []) Normal None) (\<lambda>_.
     downloadFiles (server E hostname) hostname sourceDirectory downloadPath))))))))))))"

section \<open>Archive expansion\<close>

text \<open>\<open>extractall(downloadPath)\<close>: every member is written below the download directory.\<close>

definition extractall :: "string \<Rightarrow> (string \<times> string) list \<Rightarrow> unit prog" where
  "extractall downloadPath members =
     forEach members (\<lambda>m _. write_file (os_path_join downloadPath (fst m)) (snd m)) ()"

text \<open>
  The body of the loop of \<open>unzipZippedFiles\<close>.  \<open>zipfile.is_zipfile\<close> answers \<open>False\<close>
  for a file that cannot be opened, \<open>tarfile.is_tarfile\<close> raises for it.
\<close>

definition unzipOne :: "env \<Rightarrow> string option \<Rightarrow> string \<Rightarrow> unit prog" where
  "unzipOne E downloadPath i =
     andThen (join_path downloadPath i) (\<lambda>file.
     andThen (gets (\<lambda>w. map_of (files w) file)) (\<lambda>content.
       if (case content of None \<Rightarrow> False | Some c \<Rightarrow> is_zipfile E c) then
         (case zip_members E (the content) of
            None \<Rightarrow> raise ArchiveError
          | Some members \<Rightarrow>
              andThen (extractall (the downloadPath) members) (\<lambda>_.
              writeLog (''Unzipped {}.'', [YStr file]) Normal None))
       else
         (case content of
            None \<Rightarrow> raise OSError
          | Some c \<Rightarrow>
              if is_tarfile E c then
                (case tar_members E c of
                   None \<Rightarrow> raise ArchiveError
                 | Some members \<Rightarrow>
                     andThen (extractall (the downloadPath) members) (\<lambda>_.
                     writeLog (''Unzipped {}.'', [YStr file]) Normal None))
              else ret ())))"

definition unzipZippedFiles :: "env \<Rightarrow> string option \<Rightarrow> string list \<Rightarrow> unit prog" where
  "unzipZippedFiles E downloadPath downloadedFiles =
     forEach downloadedFiles (\<lambda>i _. unzipOne E downloadPath i) ()"

section \<open>The driver\<close>

text \<open>\<open>os.path.getsize\<close> of a downloaded file.\<close>

definition getsize :: "string option \<Rightarrow> string \<Rightarrow> (string \<times> nat) prog" where
  "getsize downloadPath f =
     andThen (join_path downloadPath f) (\<lambda>file.
     andThen (gets (\<lambda>w. map_of (files w) file)) (\<lambda>content.
       case content of None \<Rightarrow> raise OSError | Some c \<Rightarrow> ret (file, length c)))"

text \<open>The start time, the end time and the execution time are not part of the model.\<close>

definition safeExit :: "string option \<Rightarrow> string list \<Rightarrow> string \<Rightarrow> unit prog" where
  "safeExit downloadPath downloadedFiles marker =
     andThen
       (forEach downloadedFiles
          (\<lambda>f sizes. andThen (getsize downloadPath f) (\<lambda>x. ret (sizes @ [x]))) [])
       (\<lambda>downloadedFilesizes.
          if marker = ''execution-complete'' then
            andThen (print (''================================================================='', [])) (\<lambda>_.
            andThen (print (''SCRIPT EXECUTED SUCCESSFULLY'', [])) (\<lambda>_.
            andThen (print (''Starting time: {}'', [])) (\<lambda>_.
            andThen (print (''Ending time: {}'', [])) (\<lambda>_.
            andThen (print (''Total execution time: {} milliseconds ({} seconds)'', [])) (\<lambda>_.
            andThen
              (print (''Total files downloaded: {}'', [YInt (int (length downloadedFiles))]))
              (\<lambda>_.
            andThen
              (forEach downloadedFilesizes
                 (\<lambda>file _. print (''Filename: {}  Size: {} bytes.'',
                                   [YStr (fst file), YInt (int (snd file))])) ()) (\<lambda>_.
            print (''================================================================='', []))))))))
          else ret ())"

text \<open>The body of the loop of \<open>main\<close> over the target sites.\<close>

definition visitSite ::
  "env \<Rightarrow> (string \<times> yaml) list \<Rightarrow> string option \<Rightarrow> bool \<Rightarrow> string \<Rightarrow> string list
   \<Rightarrow> string list prog" where
  "visitSite E ftpConfigs outPath unzip site allFilesDownloaded =
     andThen (subscript (YMap ftpConfigs) site) (\<lambda>siteConfig.
     andThen (connectToFTP E siteConfig site outPath) (\<lambda>downloadedFiles.
     andThen
       (if unzip then unzipZippedFiles E outPath downloadedFiles else ret ())
       (\<lambda>_. ret (allFilesDownloaded @ downloadedFiles))))"

text \<open>The list of target sites that \<open>main\<close> computes from the selector.\<close>

definition targetSites :: "(string \<times> yaml) list \<Rightarrow> string \<Rightarrow> string list" where
  "targetSites ftpConfigs targetFTPSite =
     (if targetFTPSite = ''.*_.*'' then map fst ftpConfigs else [targetFTPSite])"

text \<open>
  \<open>main\<close> after the call of \<open>parseArgs\<close>; \<open>yamlPath\<close>, \<open>outPath\<close>, \<open>preserve\<close>,
  \<open>verb\<close> and \<open>unzip\<close> are its variables \<open>ftpYAMLPath\<close>, \<open>outputDIRPath\<close>,
  \<open>preserveOldFiles\<close>, \<open>verbose\<close> and \<open>unzipFiles\<close>.
\<close>

definition run :: "env \<Rightarrow> args \<Rightarrow> unit prog" where
  "run E parsed =
     (case parsed of
        (yamlPath, outPath, preserve, verb, unzip, ftpConfigs,
         targetFTPSite) \<Rightarrow>
        (let preserve = True in
         andThen (writeLog (''FTP YAML path: {}'', [YStr yamlPath]) Normal None) (\<lambda>_.
         andThen
           (writeLog
              (''Local directory: {}'',
               [case outPath of None \<Rightarrow> YNull | Some d \<Rightarrow> YStr d]) Normal None) (\<lambda>_.
         andThen (writeLog (''Preserve: {}'', [YBool preserve]) Normal None) (\<lambda>_.
         andThen (writeLog (''Verbose: {}'', [YBool verb]) Normal None) (\<lambda>_.
         andThen (writeLog (''Unzip files: {}'', [YBool unzip]) Normal None) (\<lambda>_.
         andThen
           (writeLog
              (''Target sites: {}'', [YSeq (map YStr (targetSites ftpConfigs targetFTPSite))])
              Normal None) (\<lambda>_.
         andThen
           (forEach (targetSites ftpConfigs targetFTPSite)
              (visitSite E ftpConfigs outPath unzip) []) (\<lambda>allFilesDownloaded.
         safeExit outPath allFilesDownloaded ''execution-complete'')))))))))"

definition main :: "env \<Rightarrow> getopt \<Rightarrow> unit prog" where
  "main E argv = andThen (parseArgs E argv) (run E)"

section \<open>Example inputs\<close>

text \<open>
  A server that accepts everything; its directory holds two plain files and a subdirectory,
  which \<open>RETR\<close> refuses.
\<close>

definition plainServer :: ftp_server where
  "plainServer =
     \<lparr>accepts_connect = True, accepts_login = (\<lambda>u p. True), getwelcome = ''220 ready'',
      has_dir = (\<lambda>d. True),
      list_lines = Some [''-rw-r--r-- a.txt'', ''drwxr-xr-x sub'', ''-rw-r--r-- b.zip''],
      nlst_lines =
        Some [(''.'', Fetched ''dot''), (''..'', Fetched ''dots''), (''a.txt'', Fetched ''hello''),
              (''sub'', RetrFailed []), (''b.zip'', Fetched ''PK c.txt'')],
      quit_ok = True\<rparr>"

text \<open>A host that refuses the connection.\<close>

definition deadServer :: ftp_server where
  "deadServer =
     \<lparr>accepts_connect = False, accepts_login = (\<lambda>u p. False), getwelcome = [],
      has_dir = (\<lambda>d. False), list_lines = None, nlst_lines = None, quit_ok = False\<rparr>"

definition siteAt :: "string \<Rightarrow> yaml" where
  "siteAt h =
     YMap [(''site'', YStr h), (''user'', YStr ''u''), (''password'', YInt 1234),
           (''remote_path'', YStr ''/out'')]"

text \<open>
  Three credentials files, named by their content: \<open>two\<close> has the sites \<open>a\<close> (whose host
  is down) and \<open>b\<close>; \<open>one\<close> has the site \<open>b\<close>; in \<open>missing\<close> the site \<open>a\<close> has no
  \<open>site\<close> key.  Any other content is not YAML.
\<close>

definition exampleLoad :: "string \<Rightarrow> parse_result" where
  "exampleLoad c =
     (if c = ''two'' then
        Parsed (YMap [(''a'', siteAt ''ftp.down.example''), (''b'', siteAt ''ftp.up.example'')])
      else if c = ''one'' then Parsed (YMap [(''b'', siteAt ''ftp.up.example'')])
      else if c = ''missing'' then
        Parsed (YMap [(''a'', YMap [(''user'', YStr ''u''), (''password'', YStr ''p''),
                                    (''remote_path'', YStr ''/out'')]),
                      (''b'', siteAt ''ftp.up.example'')])
      else YAMLError ''mapping values are not allowed here'')"

definition exampleEnv :: env where
  "exampleEnv =
     \<lparr>platform = ''linux'', cwd = ''/work'', home = ''/home/u'', userprofile = [],
      localappdata = [], safe_load = exampleLoad,
      server = (\<lambda>h. if h = YStr ''ftp.up.example'' then plainServer else deadServer),
      is_zipfile = (\<lambda>c. startswith c ''PK''),
      zip_members = (\<lambda>c. Some [(''c.txt'', ''inner'')]),
      is_tarfile = (\<lambda>c. startswith c ''ustar''),
      tar_members = (\<lambda>c. Some [(''d.txt'', ''tar inner'')])\<rparr>"

text \<open>
  A machine whose working directory holds the credentials file with content \<open>c\<close> and whose
  home directory holds an export of an earlier day.
\<close>

definition exampleWorld :: "string \<Rightarrow> world" where
  "exampleWorld c =
     \<lparr>trace = [], console = [], logger_verbose = False,
      files = [(''/work/ftp.yaml'', c), (''/home/u/SureDone_old.csv'', ''old export'')],
      dirs = [''/work'', ''/home/u''], unclosed = []\<rparr>"

section \<open>Observations on a run\<close>

text \<open>Every event that a program appends to the trace satisfies \<open>P\<close>.\<close>

definition appends :: "(event \<Rightarrow> bool) \<Rightarrow> 'a prog \<Rightarrow> bool" where
  "appends P m = (\<forall>w. \<exists>es. trace (snd (m w)) = trace w @ es \<and> list_all P es)"

text \<open>A program leaves a component of the state as it is.\<close>

definition keeps :: "(world \<Rightarrow> 'x) \<Rightarrow> 'a prog \<Rightarrow> bool" where
  "keeps fld m = (\<forall>w. fld (snd (m w)) = fld w)"

text \<open>The names for which \<open>RETR\<close> was sent, in order.\<close>

fun retrs :: "event list \<Rightarrow> string list" where
  "retrs [] = []"
| "retrs (Retr n # es) = n # retrs es"
| "retrs (e # es) = retrs es"

definition dot :: "string \<Rightarrow> bool" where
  "dot n = (n = ''.'' \<or> n = ''..'')"

text \<open>
  In the words of the specification: the entries of the listing for which \<open>RETR\<close> is sent
  (neither \<open>.\<close> nor \<open>..\<close>, and the local file could be opened), and among them those whose
  fetch succeeded.
\<close>

definition requested :: "string option \<Rightarrow> string \<times> fetch \<Rightarrow> bool" where
  "requested localDownloadPath entry =
     (\<not> dot (fst entry) \<and> localDownloadPath \<noteq> None \<and> snd entry \<noteq> OpenFailed)"

definition fetched :: "string option \<Rightarrow> string \<times> fetch \<Rightarrow> bool" where
  "fetched localDownloadPath entry =
     (\<not> dot (fst entry) \<and> localDownloadPath \<noteq> None
      \<and> (case snd entry of Fetched c \<Rightarrow> True | CloseFailed c \<Rightarrow> True | _ \<Rightarrow> False))"

text \<open>A program that always returns \<open>v\<close>, having appended the events \<open>es\<close>.\<close>

definition does :: "'a prog \<Rightarrow> 'a \<Rightarrow> event list \<Rightarrow> bool" where
  "does m v es = (\<forall>w. fst (m w) = Inr v \<and> trace (snd (m w)) = trace w @ es)"

definition skipLog :: "string \<Rightarrow> event" where
  "skipLog n = Log Normal (''{} was actually a directory, skipping...'', [YStr n])"

text \<open>The events of one round of the download loop.\<close>

definition roundEvents :: "string option \<Rightarrow> string \<times> fetch \<Rightarrow> event list" where
  "roundEvents localDownloadPath entry =
     (if dot (fst entry) then []
      else Log Normal (''Downloading {}...'', [YStr (fst entry)]) #
        (if localDownloadPath = None then [skipLog (fst entry)]
         else case snd entry of
                OpenFailed \<Rightarrow> [skipLog (fst entry)]
              | RetrFailed x \<Rightarrow> [Retr (fst entry), skipLog (fst entry)]
              | Fetched c \<Rightarrow> [Retr (fst entry)]
              | CloseFailed c \<Rightarrow> [Retr (fst entry), skipLog (fst entry)]))"

text \<open>A program removes no file.\<close>

definition grows :: "'a prog \<Rightarrow> bool" where
  "grows m = (\<forall>w. fst ` set (files w) \<subseteq> fst ` set (files (snd (m w))))"


text \<open>The hosts to which a connection was attempted, in order.\<close>

fun connects :: "event list \<Rightarrow> yaml list" where
  "connects [] = []"
| "connects (Connect h # es) = h # connects es"
| "connects (e # es) = connects es"



section \<open>Evaluation of the examples\<close>

lemmas prog_defs = Let_def ret_def raise_def andThen_def emit_def gets_def

lemmas logger_defs =
  details_def writeLog_def print_def set_verbose_def generic_def HELP_MESSAGE_def

lemmas file_defs =
  startswith_def endswith_def os_path_join_def join_path_def path_exists_def path_isdir_def
  open_wb_def write_file_def close_file_def os_remove_def below_def os_walk_def read_file_def

lemmas config_defs = subscript_def del_key_def required_keys_def checkConfig_def loadCredentials_def

lemmas args_defs =
  purge_def windows_def linux_def purgeDefault_def getDefaultDownloadPath_def
  validateDownloadPath_def validateConfigPath_def notFound_def getDefaultConfigPath_def
  defaults_def handleOption_def parseOptions_def checkTargetSite_def configPathOf_def
  outputPathOf_def parseArgs_def

lemmas session_defs =
  disconnectFtp_def skipping_def downloadOne_def logLines_def downloadFiles_def connectToFTP_def

lemmas driver_defs =
  extractall_def unzipOne_def unzipZippedFiles_def getsize_def safeExit_def visitSite_def
  targetSites_def run_def main_def

lemmas example_defs =
  plainServer_def deadServer_def siteAt_def exampleLoad_def exampleEnv_def exampleWorld_def

lemmas model_defs =
  prog_defs logger_defs file_defs config_defs args_defs session_defs driver_defs example_defs

section \<open>Sequencing, traces and frames\<close>



named_theorems appends_intros
named_theorems keeps_intros

lemma andThen_Inr:
  "andThen m f w = (Inr b, w'') \<longleftrightarrow> (\<exists>a w'. m w = (Inr a, w') \<and> f a w' = (Inr b, w''))"
  by (cases "m w"; cases "fst (m w)") (auto simp: andThen_def)

lemma andThen_step: "m w = (Inr a, w') \<Longrightarrow> andThen m f w = f a w'"
  by (simp add: andThen_def)

lemma andThen_raise: "m w = (Inl e, w') \<Longrightarrow> andThen m f w = (Inl e, w')"
  by (simp add: andThen_def)

lemma appends_ret [appends_intros]: "appends P (ret a)"
  by (simp add: appends_def ret_def)

lemma appends_raise [appends_intros]: "appends P (raise e)"
  by (simp add: appends_def raise_def)

lemma appends_gets [appends_intros]: "appends P (gets f)"
  by (simp add: appends_def gets_def)

lemma appends_emit [appends_intros]: "P e \<Longrightarrow> appends P (emit e)"
  by (simp add: appends_def emit_def)

lemma appends_andThen [appends_intros]:
  assumes "appends P m" and "\<And>a. appends P (f a)"
  shows "appends P (andThen m f)"
  unfolding appends_def
proof
  fix w
  obtain r w1 where mw: "m w = (r, w1)" by (cases "m w")
  from assms(1) obtain es1 where es1: "trace w1 = trace w @ es1" "list_all P es1"
    using mw unfolding appends_def by (metis snd_conv)
  show "\<exists>es. trace (snd (andThen m f w)) = trace w @ es \<and> list_all P es"
  proof (cases r)
    case (Inl e)
    then show ?thesis using mw es1 by (auto simp: andThen_def)
  next
    case (Inr a)
    from assms(2)[of a] obtain es2 where
      "trace (snd (f a w1)) = trace w1 @ es2" "list_all P es2"
      unfolding appends_def by blast
    then show ?thesis using mw es1 Inr
      by (intro exI[of _ "es1 @ es2"]) (simp add: andThen_def)
  qed
qed

lemma appends_forEach [appends_intros]:
  assumes "\<And>x a. appends P (body x a)"
  shows "appends P (forEach xs body a)"
proof (induction xs arbitrary: a)
  case Nil
  show ?case by (simp add: appends_ret)
next
  case (Cons x xs)
  show ?case by (simp, rule appends_andThen) (use assms Cons in auto)
qed

lemma appends_details [appends_intros]: "appends P (details t p)"
  by (auto simp: details_def intro!: appends_ret appends_raise split: option.splits payload.splits)

lemma appends_writeLog [appends_intros]:
  assumes "\<And>t. P (Log sev t)"
  shows "appends P (writeLog msg sev data)"
proof -
  have "appends P (\<lambda>w. (Inr (), console_update (\<lambda>c. if logger_verbose w then c @ [msg] else c)
             (trace_update (\<lambda>t. t @ [Log sev toWrite]) w)))" for toWrite
    using assms by (simp add: appends_def)
  then show ?thesis
    unfolding writeLog_def
    by (intro appends_andThen)
       (auto intro!: appends_intros split: severity.splits option.splits)
qed

lemma appends_print [appends_intros]: "(\<And>t. P (Raw t)) \<Longrightarrow> appends P (print msg)"
  by (simp add: appends_def print_def)

lemma appends_files [appends_intros]:
  "appends P (open_wb p)" "appends P (write_file p c)" "appends P (close_file p)"
  "appends P (os_remove p)" "appends P (read_file p)" "appends P (set_verbose b)"
  by (simp_all add: appends_def open_wb_def write_file_def close_file_def os_remove_def
        read_file_def set_verbose_def split: option.splits)

lemma appends_mono: "appends P m \<Longrightarrow> (\<And>e. P e \<Longrightarrow> Q e) \<Longrightarrow> appends Q m"
  unfolding appends_def by (metis (mono_tags, lifting) list.pred_mono_strong)

lemma appends_skipping [appends_intros]:
  "(\<And>t. P (Log Normal t)) \<Longrightarrow> appends P (skipping n acc)"
  unfolding skipping_def by (intro appends_intros)

lemma appends_downloadOne:
  assumes "\<And>t. P (Log Normal t)" and "\<And>n. \<not> dot n \<Longrightarrow> P (Retr n)"
  shows "appends P (downloadOne out e acc)"
  using assms unfolding downloadOne_def
  by (auto simp: Let_def dot_def intro!: appends_intros split: prod.splits option.splits fetch.splits)

lemma appends_logLines [appends_intros]:
  "(\<And>t. P (Log Normal t)) \<Longrightarrow> appends P (logLines ls)"
  unfolding logLines_def by (intro appends_intros)

lemma appends_disconnectFtp:
  "(\<And>t. P (Log Normal t)) \<Longrightarrow> P Quit \<Longrightarrow> appends P (disconnectFtp ftp h)"
  unfolding disconnectFtp_def by (auto intro!: appends_intros)

lemma appends_downloadFiles:
  assumes "\<And>t. P (Log Normal t)" and "\<And>n. \<not> dot n \<Longrightarrow> P (Retr n)"
    and "P Quit" "P ListCmd" "P Nlst" "\<And>d. P (Cwd d)"
  shows "appends P (downloadFiles ftp h dir out)"
  using assms unfolding downloadFiles_def
  by (auto intro!: appends_intros appends_downloadOne appends_disconnectFtp split: option.splits)


named_theorems does_intros

lemma does_ret [does_intros]: "does (ret a) a []"
  by (simp add: does_def ret_def)

lemma does_emit [does_intros]: "does (emit e) () [e]"
  by (simp add: does_def emit_def)

lemma does_andThen [does_intros]:
  assumes "does m a es1" and "does (f a) b es2"
  shows "does (andThen m f) b (es1 @ es2)"
  unfolding does_def
proof
  fix w
  obtain w1 where mw: "m w = (Inr a, w1)" and t1: "trace w1 = trace w @ es1"
    using assms(1) unfolding does_def by (metis prod.collapse)
  from assms(2) have "fst (f a w1) = Inr b" "trace (snd (f a w1)) = trace w1 @ es2"
    unfolding does_def by auto
  then show "fst (andThen m f w) = Inr b \<and> trace (snd (andThen m f w)) = trace w @ es1 @ es2"
    using mw t1 by (simp add: andThen_def)
qed

lemma does_writeLog [does_intros]:
  "sev \<noteq> CodeBreaker \<Longrightarrow> does (writeLog msg sev data) () [Log sev msg]"
  by (cases sev) (simp_all add: does_def writeLog_def andThen_def ret_def)

lemma does_files [does_intros]:
  "does (open_wb p) () []" "does (write_file p c) () []" "does (close_file p) () []"
  by (simp_all add: does_def open_wb_def write_file_def close_file_def)

lemma does_returns: "does m v es \<Longrightarrow> fst (m w) = Inr v"
  by (simp add: does_def)

lemma does_eq: "does m v es \<Longrightarrow> v = v' \<Longrightarrow> es = es' \<Longrightarrow> does m v' es'"
  by simp

lemma does_skipping [does_intros]: "does (skipping n acc) acc [skipLog n]"
  unfolding skipping_def skipLog_def
  by (rule does_eq, (rule does_intros | simp)+)

lemma does_downloadOne:
  "does (downloadOne out e acc) (if fetched out e then acc @ [fst e] else acc) (roundEvents out e)"
proof (cases e)
  case (Pair n outcome)
  show ?thesis
  proof (cases "dot n")
    case True
    then show ?thesis using Pair
      by (auto simp: downloadOne_def fetched_def roundEvents_def dot_def intro: does_ret)
  next
    case False
    have nd: "n \<noteq> ''.'' \<and> n \<noteq> ''..''" using False by (simp add: dot_def)
    show ?thesis
    proof (cases out)
      case None
      then show ?thesis using Pair nd False
        by (simp add: downloadOne_def fetched_def roundEvents_def)
           (rule does_eq, (rule does_intros | simp)+)
    next
      case (Some d)
      then show ?thesis using Pair nd False
        by (cases outcome; simp add: downloadOne_def fetched_def roundEvents_def Let_def)
           ((rule does_eq, (rule does_intros | simp)+)+)
    qed
  qed
qed

lemma does_loop:
  "does (forEach fileList (downloadOne out) acc)
     (acc @ map fst (filter (fetched out) fileList)) (concat (map (roundEvents out) fileList))"
proof (induction fileList arbitrary: acc)
  case Nil
  show ?case by (simp add: does_ret)
next
  case (Cons e es)
  have "does (andThen (downloadOne out e acc) (forEach es (downloadOne out)))
          ((if fetched out e then acc @ [fst e] else acc) @ map fst (filter (fetched out) es))
          (roundEvents out e @ concat (map (roundEvents out) es))"
    by (rule does_andThen [OF does_downloadOne Cons])
  then show ?case by (cases "fetched out e") simp_all
qed

lemma does_logLines: "does (logLines ls) () (map (\<lambda>i. Log Normal (i, [])) ls)"
  unfolding logLines_def
proof (induction ls)
  case Nil
  show ?case by (simp add: does_ret)
next
  case (Cons l ls)
  have "does (andThen (writeLog (l, []) Normal None)
                (forEach ls (\<lambda>i _. writeLog (i, []) Normal None)))
          () ([Log Normal (l, [])] @ map (\<lambda>i. Log Normal (i, [])) ls)"
    using does_andThen [of "writeLog (l, []) Normal None" "()" "[Log Normal (l, [])]"
        "forEach ls (\<lambda>i _. writeLog (i, []) Normal None)" "()"
        "map (\<lambda>i. Log Normal (i, [])) ls"] does_writeLog [of Normal "(l, [])" None] Cons
    by simp
  then show ?case by simp
qed


lemma does_disconnectFtp:
  "quit_ok ftp \<Longrightarrow>
   does (disconnectFtp ftp h) ()
     [Log Normal (''Disconnecting from {}...'', [h]), Quit,
      Log Normal (''Disconnected from {}.'', [h])]"
  unfolding disconnectFtp_def
  by (simp, rule does_eq, (rule does_intros | simp)+)

lemma does_downloadFiles:
  assumes "has_dir ftp dir" and "list_lines ftp = Some ls" and "nlst_lines ftp = Some fileList"
    and "quit_ok ftp"
  shows "does (downloadFiles ftp h dir out) (map fst (filter (fetched out) fileList))
     ([Cwd dir, Log Normal (''This script will only download files, not directories.'', []),
       Log Normal (''Files at {}:'', [dir]), ListCmd]
      @ map (\<lambda>i. Log Normal (i, [])) ls @ [Nlst]
      @ concat (map (roundEvents out) fileList)
      @ [Log Normal (''{} files successfully downloaded'',
           [YInt (int (length (filter (fetched out) fileList)))]),
         Log Normal (''Disconnecting from {}...'', [h]), Quit,
         Log Normal (''Disconnected from {}.'', [h])])"
  unfolding downloadFiles_def using assms
  apply simp
  apply (rule does_eq)
    apply (rule does_andThen, rule does_emit)
    apply (rule does_andThen, rule does_ret)
    apply (rule does_andThen, rule does_writeLog, simp)
    apply (rule does_andThen, rule does_writeLog, simp)
    apply (rule does_andThen, rule does_emit)
    apply (rule does_andThen, rule does_logLines)
    apply (rule does_andThen, rule does_emit)
    apply (rule does_andThen, rule does_ret)
    apply (rule does_andThen, rule does_loop [where acc = "[]"])
    apply (rule does_andThen, rule does_writeLog, simp)
    apply (rule does_andThen, rule does_disconnectFtp, simp)
    apply (rule does_ret)
   apply simp_all
  done

lemma retrs_append [simp]: "retrs (xs @ ys) = retrs xs @ retrs ys"
  by (induction xs rule: retrs.induct) simp_all

lemma retrs_logs [simp]: "retrs (map (\<lambda>i. Log Normal (f i)) ls) = []"
  by (induction ls) simp_all

lemma retrs_round:
  "retrs (roundEvents out e) = (if requested out e then [fst e] else [])"
  by (cases "snd e") (auto simp: roundEvents_def requested_def skipLog_def)

lemma retrs_rounds:
  "retrs (concat (map (roundEvents out) fileList)) = map fst (filter (requested out) fileList)"
  by (induction fileList) (simp_all add: retrs_round)

lemma skipLog_round:
  "\<not> dot (fst e) \<Longrightarrow> \<not> fetched out e \<Longrightarrow> skipLog (fst e) \<in> set (roundEvents out e)"
  by (cases "snd e") (auto simp: roundEvents_def fetched_def)

text \<open>
  C6.  In a session whose directory change, listings and \<open>QUIT\<close> succeed, \<open>downloadFiles\<close>
  returns (it raises nothing) exactly the names of the listing whose fetch succeeded, in the
  order of the listing.  No failure stops the loop: \<open>RETR\<close> is sent for every entry other than
  \<open>.\<close> and \<open>..\<close> whose local file could be opened, and for every entry that is not fetched
  the line "was actually a directory, skipping" is in the log.
\<close>

theorem C6_failed_fetch_is_skipped:
  assumes "has_dir ftp sourceDirectory" and "list_lines ftp = Some ls"
    and "nlst_lines ftp = Some fileList" and "quit_ok ftp"
    and "downloadFiles ftp hostname sourceDirectory localDownloadPath w = (r, w')"
  shows "r = Inr (map fst (filter (fetched localDownloadPath) fileList))
    \<and> retrs (trace w') = retrs (trace w) @ map fst (filter (requested localDownloadPath) fileList)
    \<and> (\<forall>e \<in> set fileList. \<not> dot (fst e) \<and> \<not> fetched localDownloadPath e
          \<longrightarrow> skipLog (fst e) \<in> set (trace w'))"
proof -
  note d = does_downloadFiles [OF assms(1-4), of hostname localDownloadPath, unfolded does_def,
      rule_format, of w]
  from d assms(5) have r: "r = Inr (map fst (filter (fetched localDownloadPath) fileList))"
    by simp
  let ?pre = "[Cwd sourceDirectory,
       Log Normal (''This script will only download files, not directories.'', []),
       Log Normal (''Files at {}:'', [sourceDirectory]), ListCmd]
      @ map (\<lambda>i. Log Normal (i, [])) ls @ [Nlst]"
  let ?post = "[Log Normal (''{} files successfully downloaded'',
           [YInt (int (length (filter (fetched localDownloadPath) fileList)))]),
         Log Normal (''Disconnecting from {}...'', [hostname]), Quit,
         Log Normal (''Disconnected from {}.'', [hostname])]"
  from d assms(5) have tr: "trace w' =
      trace w @ ?pre @ concat (map (roundEvents localDownloadPath) fileList) @ ?post"
    by simp
  have pp: "retrs ?pre = []" "retrs ?post = []" by simp_all
  have "retrs (trace w') =
      retrs (trace w) @ map fst (filter (requested localDownloadPath) fileList)"
    unfolding tr retrs_append pp retrs_rounds by simp
  moreover have "skipLog (fst e) \<in> set (trace w')"
    if "e \<in> set fileList" "\<not> dot (fst e)" "\<not> fetched localDownloadPath e" for e
    using that skipLog_round [of e localDownloadPath] by (auto simp: tr)
  ultimately show ?thesis using r by blast
qed

lemma forEach_downloadOne_Inr:
  "forEach fileList (downloadOne out) acc w = (Inr names, w') \<Longrightarrow>
   names = acc @ map fst (filter (fetched out) fileList)"
  using does_loop [of fileList out acc, unfolded does_def, rule_format, of w] by simp

lemma downloadFiles_Inr:
  assumes "downloadFiles ftp h dir out w = (Inr names, w')"
  shows "\<exists>fileList. nlst_lines ftp = Some fileList
           \<and> names = map fst (filter (fetched out) fileList)"
  using assms unfolding downloadFiles_def
  by (auto simp: andThen_Inr ret_def raise_def split: option.splits if_splits
           dest!: forEach_downloadOne_Inr)

text \<open>
  C5.  Whatever the server answers, \<open>downloadFiles\<close> sends no \<open>RETR\<close> for \<open>.\<close> or \<open>..\<close>;
  and when it returns a list of names, neither \<open>.\<close> nor \<open>..\<close> is in it and every name of
  it is a name of the bare listing.
\<close>

theorem C5_dot_entries_are_skipped:
  assumes "downloadFiles ftp hostname sourceDirectory localDownloadPath w = (r, w')"
  shows "(\<exists>es. trace w' = trace w @ es \<and> Retr ''.'' \<notin> set es \<and> Retr ''..'' \<notin> set es)
    \<and> (\<forall>names. r = Inr names \<longrightarrow>
          ''.'' \<notin> set names \<and> ''..'' \<notin> set names
          \<and> (\<exists>fileList. nlst_lines ftp = Some fileList \<and> set names \<subseteq> fst ` set fileList))"
proof -
  have "appends (\<lambda>e. e \<noteq> Retr ''.'' \<and> e \<noteq> Retr ''..'')
          (downloadFiles ftp hostname sourceDirectory localDownloadPath)"
    by (rule appends_downloadFiles) (auto simp: dot_def)
  then obtain es where "trace w' = trace w @ es"
      "list_all (\<lambda>e. e \<noteq> Retr ''.'' \<and> e \<noteq> Retr ''..'') es"
    using assms unfolding appends_def by (metis snd_conv)
  then have 1: "\<exists>es. trace w' = trace w @ es \<and> Retr ''.'' \<notin> set es \<and> Retr ''..'' \<notin> set es"
    by (auto simp: list_all_iff)
  have 2: "''.'' \<notin> set names \<and> ''..'' \<notin> set names
      \<and> (\<exists>fileList. nlst_lines ftp = Some fileList \<and> set names \<subseteq> fst ` set fileList)"
    if "r = Inr names" for names
  proof -
    from that assms obtain fileList where fl: "nlst_lines ftp = Some fileList"
      "names = map fst (filter (fetched localDownloadPath) fileList)"
      using downloadFiles_Inr by blast
    then show ?thesis by (auto simp: fetched_def dot_def)
  qed
  show ?thesis using 1 2 by blast
qed



lemma keepsD: "keeps fld m \<Longrightarrow> m w = (r, w') \<Longrightarrow> fld w' = fld w"
  unfolding keeps_def by (metis snd_conv)

lemma keeps_ret [keeps_intros]: "keeps fld (ret a)"
  by (simp add: keeps_def ret_def)

lemma keeps_raise [keeps_intros]: "keeps fld (raise e)"
  by (simp add: keeps_def raise_def)

lemma keeps_gets [keeps_intros]: "keeps fld (gets f)"
  by (simp add: keeps_def gets_def)

lemma keeps_andThen [keeps_intros]:
  assumes "keeps fld m" and "\<And>a. keeps fld (f a)"
  shows "keeps fld (andThen m f)"
  unfolding keeps_def
proof
  fix w
  obtain r w1 where mw: "m w = (r, w1)" by (cases "m w")
  then have 1: "fld w1 = fld w" using assms(1) by (rule keepsD [rotated])
  show "fld (snd (andThen m f w)) = fld w"
  proof (cases r)
    case (Inl e)
    then show ?thesis using mw 1 by (simp add: andThen_def)
  next
    case (Inr a)
    then show ?thesis using mw 1 assms(2) [of a] by (simp add: andThen_def keeps_def)
  qed
qed

lemma keeps_forEach [keeps_intros]:
  assumes "\<And>x a. keeps fld (body x a)"
  shows "keeps fld (forEach xs body a)"
proof (induction xs arbitrary: a)
  case Nil
  show ?case by (simp add: keeps_ret)
next
  case (Cons x xs)
  show ?case by (simp, rule keeps_andThen) (use assms Cons in auto)
qed

lemma keeps_details [keeps_intros]: "keeps fld (details t p)"
  by (auto simp: details_def intro!: keeps_ret keeps_raise split: option.splits payload.splits)

lemma keeps_emit [keeps_intros]:
  "keeps files (emit e)" "keeps unclosed (emit e)" "keeps dirs (emit e)"
  by (simp_all add: keeps_def emit_def)

lemma keeps_writeLog [keeps_intros]:
  "keeps files (writeLog msg sev data)" "keeps unclosed (writeLog msg sev data)"
  "keeps dirs (writeLog msg sev data)"
proof -
  have "keeps files (\<lambda>w. (Inr (), console_update (\<lambda>c. if logger_verbose w then c @ [msg] else c)
             (trace_update (\<lambda>t. t @ [Log sev toWrite]) w)))"
    "keeps unclosed (\<lambda>w. (Inr (), console_update (\<lambda>c. if logger_verbose w then c @ [msg] else c)
             (trace_update (\<lambda>t. t @ [Log sev toWrite]) w)))"
    "keeps dirs (\<lambda>w. (Inr (), console_update (\<lambda>c. if logger_verbose w then c @ [msg] else c)
             (trace_update (\<lambda>t. t @ [Log sev toWrite]) w)))" for toWrite
    by (simp_all add: keeps_def)
  then show "keeps files (writeLog msg sev data)" "keeps unclosed (writeLog msg sev data)"
    "keeps dirs (writeLog msg sev data)"
    unfolding writeLog_def
    by (auto intro!: keeps_andThen keeps_ret keeps_raise keeps_details
        split: severity.splits option.splits)
qed

lemma keeps_print [keeps_intros]:
  "keeps files (print msg)" "keeps unclosed (print msg)" "keeps dirs (print msg)"
  by (simp_all add: keeps_def print_def)

lemma keeps_logLines [keeps_intros]:
  "keeps files (logLines ls)" "keeps unclosed (logLines ls)"
  unfolding logLines_def by (intro keeps_intros)+












theorem C5_witness:
  "fst (downloadFiles plainServer (YStr ''ftp.up.example'') (YStr ''/out'') (Some ''/home/u'')
          (exampleWorld ''one'')) = Inr [''a.txt'', ''b.zip'']
   \<and> ''.'' \<notin> set [''a.txt'', ''b.zip''] \<and> ''..'' \<notin> set [''a.txt'', ''b.zip'']
   \<and> set [''a.txt'', ''b.zip''] \<subseteq> fst ` set (the (nlst_lines plainServer))"
proof -
  let ?run = "downloadFiles plainServer (YStr ''ftp.up.example'') (YStr ''/out'')
                (Some ''/home/u'') (exampleWorld ''one'')"
  have r: "fst ?run = Inr [''a.txt'', ''b.zip'']"
    using does_returns [OF does_downloadFiles [where ftp = plainServer and dir = "YStr ''/out''"
          and h = "YStr ''ftp.up.example''" and out = "Some ''/home/u''"]]
    by (simp add: plainServer_def fetched_def dot_def)
  have "?run = (fst ?run, snd ?run)" by simp
  from C5_dot_entries_are_skipped [OF this] r show ?thesis
    by (simp add: plainServer_def)
qed

theorem C6_witness:
  "fst (downloadFiles plainServer (YStr ''ftp.up.example'') (YStr ''/out'') (Some ''/home/u'')
          (exampleWorld ''one'')) = Inr [''a.txt'', ''b.zip'']
   \<and> retrs (trace (snd (downloadFiles plainServer (YStr ''ftp.up.example'') (YStr ''/out'')
          (Some ''/home/u'') (exampleWorld ''one'')))) = [''a.txt'', ''sub'', ''b.zip'']
   \<and> skipLog ''sub'' \<in> set (trace (snd (downloadFiles plainServer (YStr ''ftp.up.example'')
          (YStr ''/out'') (Some ''/home/u'') (exampleWorld ''one''))))"
proof -
  let ?run = "downloadFiles plainServer (YStr ''ftp.up.example'') (YStr ''/out'')
                (Some ''/home/u'') (exampleWorld ''one'')"
  have h: "has_dir plainServer (YStr ''/out'')"
    "list_lines plainServer = Some [''-rw-r--r-- a.txt'', ''drwxr-xr-x sub'', ''-rw-r--r-- b.zip'']"
    "nlst_lines plainServer =
       Some [(''.'', Fetched ''dot''), (''..'', Fetched ''dots''), (''a.txt'', Fetched ''hello''),
             (''sub'', RetrFailed []), (''b.zip'', Fetched ''PK c.txt'')]"
    "quit_ok plainServer"
    by (simp_all add: plainServer_def)
  have "?run = (fst ?run, snd ?run)" by simp
  from C6_failed_fetch_is_skipped [OF h this] show ?thesis
    by (simp add: fetched_def requested_def dot_def exampleWorld_def)
qed



named_theorems grows_intros

lemma grows_ret [grows_intros]: "grows (ret a)"
  by (simp add: grows_def ret_def)

lemma grows_raise [grows_intros]: "grows (raise e)"
  by (simp add: grows_def raise_def)

lemma grows_gets [grows_intros]: "grows (gets f)"
  by (simp add: grows_def gets_def)

lemma grows_keeps: "keeps files m \<Longrightarrow> grows m"
  by (simp add: grows_def keeps_def)

lemma grows_andThen [grows_intros]:
  assumes "grows m" and "\<And>a. grows (f a)"
  shows "grows (andThen m f)"
  unfolding grows_def
proof
  fix w
  obtain r w1 where mw: "m w = (r, w1)" by (cases "m w")
  then have 1: "fst ` set (files w) \<subseteq> fst ` set (files w1)"
    using assms(1) unfolding grows_def by (metis snd_conv)
  show "fst ` set (files w) \<subseteq> fst ` set (files (snd (andThen m f w)))"
  proof (cases r)
    case (Inl e)
    then show ?thesis using mw 1 by (simp add: andThen_def)
  next
    case (Inr a)
    have "fst ` set (files w1) \<subseteq> fst ` set (files (snd (f a w1)))"
      using assms(2) [of a] unfolding grows_def by blast
    then show ?thesis using mw 1 Inr by (auto simp: andThen_def)
  qed
qed

lemma grows_forEach [grows_intros]:
  assumes "\<And>x a. grows (body x a)"
  shows "grows (forEach xs body a)"
proof (induction xs arbitrary: a)
  case Nil
  show ?case by (simp add: grows_ret)
next
  case (Cons x xs)
  show ?case by (simp, rule grows_andThen) (use assms Cons in auto)
qed

lemma grows_write_file [grows_intros]: "grows (write_file p c)"
  by (auto simp: grows_def write_file_def dom_update)

lemma grows_writeLog [grows_intros]: "grows (writeLog msg sev data)"
  by (rule grows_keeps) (rule keeps_writeLog)

lemma grows_extractall [grows_intros]: "grows (extractall d ms)"
  unfolding extractall_def by (intro grows_intros)











section \<open>The loop over the target sites\<close>

lemma connects_append [simp]: "connects (xs @ ys) = connects xs @ connects ys"
  by (induction xs rule: connects.induct) simp_all



lemma appends_extractall [appends_intros]: "appends P (extractall d ms)"
  unfolding extractall_def by (intro appends_intros)


















section \<open>Validation of the credentials\<close>

text \<open>
  C1.  An entry that lacks one of the keys \<open>site\<close>, \<open>user\<close>, \<open>password\<close>,
  \<open>remote_path\<close> is to be absent from the catalog that \<open>loadCredentials\<close> returns.  The
  code removes the entry and then goes on to the second check with the same entry: there
  \<open>site['site']\<close> raises \<open>KeyError\<close>, so no catalog is returned at all.  The file
  \<open>missing\<close> has the entry \<open>a\<close> without \<open>site\<close> and the well-formed entry \<open>b\<close>; the
  warning for \<open>a\<close> is the only thing that is logged before the exception.
\<close>

theorem C1_missing_key_raises:
  "loadCredentials exampleEnv ''/work/ftp.yaml'' (exampleWorld ''missing'') =
     (Inl KeyError,
      (exampleWorld ''missing'')
        \<lparr>trace := [Log Warning (''Key missing from {} site info. Removing faulty config...'',
                                  [YStr ''a''])]\<rparr>)"
  by (simp add: model_defs cong: prod.case_cong_weak)

section \<open>The purge of the default download directory\<close>

text \<open>
  C9.  \<open>main\<close> sets \<open>preserveOldFiles\<close> to \<open>True\<close> only after \<open>parseArgs\<close> has returned,
  and \<open>parseArgs\<close> has by then called \<open>getDefaultDownloadPath\<close> with the value from the
  command line.  A run without options on Linux therefore purges the home directory, which
  is the default download directory: the old export is there before \<open>parseArgs\<close> and gone
  after it, and the run goes on to its normal end.
\<close>

theorem C9_purge_still_runs:
  "map_of (files (exampleWorld ''one'')) ''/home/u/SureDone_old.csv'' = Some ''old export''
   \<and> fst (parseArgs exampleEnv (Opts []) (exampleWorld ''one'')) =
        Inr (''/work/ftp.yaml'', Some ''/home/u'', False, False, False,
             [(''b'', siteAt ''ftp.up.example'')], ''.*_.*'')
   \<and> map_of (files (snd (parseArgs exampleEnv (Opts []) (exampleWorld ''one''))))
        ''/home/u/SureDone_old.csv'' = None
   \<and> fst (main exampleEnv (Opts []) (exampleWorld ''one'')) = Inr ()
   \<and> map_of (files (snd (main exampleEnv (Opts []) (exampleWorld ''one''))))
        ''/home/u/SureDone_old.csv'' = None"
  by (simp add: model_defs cong: prod.case_cong_weak)

end
